theory Spec2Isabelle
  imports Complex_Main
begin

section \<open>Data model of the dashboard page\<close>

text \<open>
  The page component \<open>Home\<close> keeps its state in React hooks. JavaScript numbers are
  modelled as reals (the slider delivers the integers 0..100; non-finite numbers are not
  modelled), strings as \<open>string\<close>, \<open>T | null\<close> and optional fields as \<open>option\<close>.
\<close>

datatype focus_mode = Price | Sentiment

datatype rec_status = Idle | Loading | Error

datatype trigger = Auto | Manual

record recommendation =
  action :: string
  probability :: real
  rationale :: "string option"

record cluster_insight =
  cluster_id :: real
  label :: "string option"
  description :: "string option"
  drivers :: "string list option"
  metrics :: "(string \<times> real) list option"

text \<open>
  \<open>lastRunAt\<close> holds an ISO string. It is either the string the service sent
  (\<open>generated_at\<close>) or \<open>new Date().toISOString()\<close> read at a clock value.
\<close>

datatype timestamp = ServerTime string | ClientTime nat

text \<open>
  The wallet text is kept as its sequence of UTF-16 code units, because
  \<open>String.prototype.trim\<close> depends on which characters are Unicode white space.
\<close>

type_synonym js_string = "nat list"

text \<open>The JSON body posted to \<open>/signals\<close>.\<close>

record request_payload =
  price_weight :: real
  sentiment_weight :: real
  req_wallet :: "js_string option"

text \<open>The decoded response body; every field may be missing or null.\<close>

record response_body =
  body_recommendations :: "recommendation list option"
  body_cluster :: "cluster_insight option"
  body_message :: "string option"
  body_generated_at :: "string option"
  body_narrative :: "string option"

text \<open>
  What \<open>response.json()\<close> gives: a rejection (the text is not JSON), the JSON value
  \<open>null\<close> (reading a property of it throws), or a value whose properties can be read.
\<close>

datatype json_result = JsonRejected | JsonNull | JsonValue response_body

text \<open>
  How the awaited \<open>fetch\<close> settles: it rejects (no connectivity, or the request was
  aborted), or it resolves with a response carrying the status and the body;
  \<open>response.ok\<close> holds for the statuses 200 to 299.
\<close>

datatype fetch_result = FetchRejected | FetchResponse nat json_result

definition response_ok :: "nat \<Rightarrow> bool" where
  "response_ok status = (200 \<le> status \<and> status \<le> 299)"

text \<open>
  The hooks of \<open>Home\<close> that the inference path reads or writes, followed by the
  environment the component runs in: the \<open>aborted\<close> flag of every \<open>AbortController\<close>
  created so far (controllers are numbered in order of creation), the pending
  \<open>setTimeout\<close> of the debounce effect (its due time and the \<open>effectiveBias\<close> its closure
  captured), and the log of the \<open>fetch\<close> calls issued.
\<close>

record home_state =
  focus :: focus_mode
  weight :: real
  effectiveBias :: real
  wallet :: js_string
  recStatus :: rec_status
  recommendations :: "recommendation list"
  clusterInsight :: "cluster_insight option"
  modelMessage :: "string option"
  lastRunAt :: "timestamp option"
  narrativeCopy :: string
  inferenceController :: "nat option"
  walletRef :: js_string
  weightRef :: real
  aborted :: "nat set"
  next_controller :: nat
  debounce :: "(nat \<times> real) option"
  requests :: "(nat \<times> request_payload) list"

section \<open>Constants\<close>

definition snapWeight :: "real \<Rightarrow> real" where
  "snapWeight value = (if value < 50 then 50 else 60)"

definition DEMO_RECOMMENDATIONS :: "recommendation list" where
  "DEMO_RECOMMENDATIONS =
    [\<lparr>action = ''restake'', probability = 0.58,
      rationale = Some ''Price-weighted snapshot favours compounding rewards.''\<rparr>,
     \<lparr>action = ''stake'', probability = 0.29,
      rationale = Some ''Neutral stance keeps capital deployed in baseline pools.''\<rparr>,
     \<lparr>action = ''liquid_stake'', probability = 0.13,
      rationale = Some ''Liquidity optionality remains a secondary hedge.''\<rparr>]"

definition DEMO_CLUSTER :: cluster_insight where
  "DEMO_CLUSTER =
    \<lparr>cluster_id = 0,
     label = Some ''Restake skew'',
     description =
       Some ''APR momentum trending higher alongside elevated withdrawer counts.'',
     drivers = Some
       [''Daily APR sits near local highs with positive netflows.'',
        ''Depositors outpace withdrawers after semantic boost.''],
     metrics = Some
       [(''daily_apr'', 0.0259), (''withdraw'', - 3200), (''deposit'', 12500),
        (''daily_netflow'', 9300), (''withdrawers'', 58), (''depositors'', 72)]\<rparr>"

definition DEFAULT_NARRATIVE :: string where
  "DEFAULT_NARRATIVE =
    ''Models are syncing signals -- adjust the slider to see how focus shifts recommendations.''"

definition DEMO_NARRATIVE :: string where
  "DEMO_NARRATIVE =
    ''Claude notes a restake tilt with liquidity hedges kept light; watch deposits outpacing withdrawals.''"

definition DEMO_MESSAGE :: string where
  "DEMO_MESSAGE = ''Demo snapshot loaded locally.''"

definition AUTO_MESSAGE :: string where
  "AUTO_MESSAGE = ''Updating signals to reflect the slider.''"

definition MANUAL_MESSAGE :: string where
  "MANUAL_MESSAGE = ''Fetching the freshest signal mix.''"

definition FALLBACK_MESSAGE :: string where
  "FALLBACK_MESSAGE =
    ''Falling back to demo snapshot while the model API is unreachable.''"

section \<open>Building the request\<close>

text \<open>
  \<open>String.prototype.trim\<close> removes white space and line terminators from both ends:
  TAB, LF, VT, FF, CR, SPACE, NO-BREAK SPACE, U+1680, U+2000 to U+200A, U+2028, U+2029,
  U+202F, U+205F, U+3000 and U+FEFF.
\<close>

definition is_space :: "nat \<Rightarrow> bool" where
  "is_space c =
    (c = 0x09 \<or> c = 0x0A \<or> c = 0x0B \<or> c = 0x0C \<or> c = 0x0D \<or> c = 0x20 \<or>
     c = 0xA0 \<or> c = 0x1680 \<or> (0x2000 \<le> c \<and> c \<le> 0x200A) \<or> c = 0x2028 \<or>
     c = 0x2029 \<or> c = 0x202F \<or> c = 0x205F \<or> c = 0x3000 \<or> c = 0xFEFF)"

definition trim :: "js_string \<Rightarrow> js_string" where
  "trim s = rev (dropWhile is_space (rev (dropWhile is_space s)))"

text \<open>
  The first lines of \<open>runInference\<close>: the bias is the argument when one is given and the
  value of \<open>weightRef\<close> otherwise (the ref always holds a number, so the \<open>?? weight\<close> arm
  is never taken); the price weight is the bias over 100 clamped to the unit interval.
\<close>

definition build_payload :: "real option \<Rightarrow> bool \<Rightarrow> home_state \<Rightarrow> request_payload" where
  "build_payload bias includeWallet s =
    (let effective = (case bias of Some b \<Rightarrow> b | None \<Rightarrow> weightRef s);
         priceWeight = min (max (effective / 100) 0) 1;
         sentimentWeight = 1 - priceWeight
     in \<lparr>price_weight = priceWeight,
         sentiment_weight = sentimentWeight,
         req_wallet =
           (if includeWallet \<and> length (trim (walletRef s)) > 0
            then Some (trim (walletRef s)) else None)\<rparr>)"

section \<open>runInference\<close>

text \<open>
  The synchronous part of \<open>runInference\<close>, up to the awaited \<open>fetch\<close>. The first argument
  is the configuration flag \<open>USE_DEMO_SIGNALS\<close>, \<open>now\<close> is the clock. With the flag set
  the demo snapshot is stored and nothing else happens. Otherwise the controller held
  by the ref is aborted, a new one is created and stored in the ref, the status becomes
  loading and the request is issued with the new controller's signal.
\<close>

definition runInference ::
  "bool \<Rightarrow> trigger \<Rightarrow> real option \<Rightarrow> bool \<Rightarrow> nat \<Rightarrow> home_state \<Rightarrow> home_state" where
  "runInference demo trig bias includeWallet now s =
    (let payload = build_payload bias includeWallet s in
     if demo then
       s\<lparr>recommendations := DEMO_RECOMMENDATIONS,
         clusterInsight := Some DEMO_CLUSTER,
         modelMessage := Some DEMO_MESSAGE,
         lastRunAt := Some (ClientTime now),
         narrativeCopy := DEMO_NARRATIVE,
         recStatus := Idle\<rparr>
     else
       (let controller = next_controller s in
        s\<lparr>aborted :=
            (case inferenceController s of
               None \<Rightarrow> aborted s
             | Some old \<Rightarrow> insert old (aborted s)),
          next_controller := Suc controller,
          inferenceController := Some controller,
          recStatus := Loading,
          modelMessage := Some (if trig = Auto then AUTO_MESSAGE else MANUAL_MESSAGE),
          requests := requests s @ [(controller, payload)]\<rparr>))"

text \<open>The statements of the \<open>try\<close> block after a body was read.\<close>

definition apply_body :: "response_body \<Rightarrow> nat \<Rightarrow> home_state \<Rightarrow> home_state" where
  "apply_body body now s =
    s\<lparr>recommendations :=
        (case body_recommendations body of Some rs \<Rightarrow> rs | None \<Rightarrow> []),
      clusterInsight := body_cluster body,
      modelMessage := body_message body,
      lastRunAt :=
        Some (case body_generated_at body of
                Some g \<Rightarrow> ServerTime g | None \<Rightarrow> ClientTime now),
      narrativeCopy :=
        (case body_narrative body of Some n \<Rightarrow> n | None \<Rightarrow> DEFAULT_NARRATIVE),
      recStatus := Idle\<rparr>"

text \<open>The \<open>catch\<close> block: nothing for an aborted controller, the fallback otherwise.\<close>

definition catch_block :: "nat \<Rightarrow> nat \<Rightarrow> home_state \<Rightarrow> home_state" where
  "catch_block controller now s =
    (if controller \<in> aborted s then s
     else
       s\<lparr>recStatus := Error,
         recommendations := DEMO_RECOMMENDATIONS,
         clusterInsight := Some DEMO_CLUSTER,
         modelMessage := Some FALLBACK_MESSAGE,
         lastRunAt := Some (ClientTime now),
         narrativeCopy := DEFAULT_NARRATIVE\<rparr>)"

text \<open>
  The rest of \<open>runInference\<close>, run when the request made with \<open>controller\<close> settles. A
  rejected fetch, a response that is not ok and a body that is not JSON all throw into
  the \<open>catch\<close> block. After the body is read the aborted flag is tested; the JSON value
  \<open>null\<close> then throws at the first property read.
\<close>

fun settle :: "nat \<Rightarrow> fetch_result \<Rightarrow> nat \<Rightarrow> home_state \<Rightarrow> home_state" where
  "settle controller FetchRejected now s = catch_block controller now s"
| "settle controller (FetchResponse status js) now s =
    (if \<not> response_ok status then catch_block controller now s
     else
       (case js of
          JsonRejected \<Rightarrow> catch_block controller now s
        | JsonNull \<Rightarrow>
            (if controller \<in> aborted s then s else catch_block controller now s)
        | JsonValue body \<Rightarrow>
            (if controller \<in> aborted s then s else apply_body body now s)))"

section \<open>Handlers, effects and the debounce timer\<close>

definition handleFocusChange :: "focus_mode \<Rightarrow> home_state \<Rightarrow> home_state" where
  "handleFocusChange mode s =
    (let nextWeight = (if mode = Price then 75 else 25) in
     s\<lparr>focus := mode, weight := nextWeight, effectiveBias := snapWeight nextWeight\<rparr>)"

definition handleWeightChange :: "real \<Rightarrow> home_state \<Rightarrow> home_state" where
  "handleWeightChange value s =
    (let snapped = snapWeight value in
     s\<lparr>weight := value,
       focus := (if snapped \<ge> 50 then Price else Sentiment),
       effectiveBias := snapped\<rparr>)"

definition handleWalletChange :: "js_string \<Rightarrow> home_state \<Rightarrow> home_state" where
  "handleWalletChange value s = s\<lparr>wallet := value\<rparr>"

definition handleRunSignal :: "bool \<Rightarrow> nat \<Rightarrow> home_state \<Rightarrow> home_state" where
  "handleRunSignal demo now s = runInference demo Manual None True now s"

text \<open>
  The two effects that copy \<open>wallet\<close> and \<open>effectiveBias\<close> into their refs; each runs
  after a render in which its dependency changed.
\<close>

definition ref_effects :: "home_state \<Rightarrow> home_state \<Rightarrow> home_state" where
  "ref_effects prev cur =
    cur\<lparr>walletRef :=
            (if wallet cur \<noteq> wallet prev then wallet cur else walletRef cur),
          weightRef :=
            (if effectiveBias cur \<noteq> effectiveBias prev
             then effectiveBias cur else weightRef cur)\<rparr>"

text \<open>
  The debounce effect depends on \<open>effectiveBias\<close> and on \<open>runInference\<close>, and
  \<open>runInference\<close> is a callback memoised on \<open>weight\<close>. So the effect runs again after a
  render exactly when \<open>effectiveBias\<close> or \<open>weight\<close> changed: its cleanup clears the
  pending timer and a new timer is set, due after 600 ms (0 ms with the demo flag),
  whose callback passes the \<open>effectiveBias\<close> of that render.
\<close>

definition debounce_delay :: "bool \<Rightarrow> nat" where
  "debounce_delay demo = (if demo then 0 else 600)"

definition debounce_effect :: "bool \<Rightarrow> nat \<Rightarrow> home_state \<Rightarrow> home_state \<Rightarrow> home_state" where
  "debounce_effect demo now prev cur =
    (if effectiveBias cur \<noteq> effectiveBias prev \<or> weight cur \<noteq> weight prev
     then cur\<lparr>debounce := Some (now + debounce_delay demo, effectiveBias cur)\<rparr>
     else cur)"

definition render :: "bool \<Rightarrow> nat \<Rightarrow> home_state \<Rightarrow> home_state \<Rightarrow> home_state" where
  "render demo now prev cur = debounce_effect demo now prev (ref_effects prev cur)"

text \<open>The timer callback; it runs once the timer is due.\<close>

definition debounce_fire :: "bool \<Rightarrow> nat \<Rightarrow> home_state \<Rightarrow> home_state" where
  "debounce_fire demo now s =
    (case debounce s of
       None \<Rightarrow> s
     | Some (due, bias) \<Rightarrow>
         if due \<le> now
         then runInference demo (if demo then Manual else Auto) (Some bias) False now
                (s\<lparr>debounce := None\<rparr>)
         else s)"

text \<open>
  The first render: the hooks take their initial values (the second argument is
  \<open>DEMO_WEIGHT\<close>) and the debounce effect sets its first timer.
\<close>

definition mount :: "bool \<Rightarrow> real \<Rightarrow> nat \<Rightarrow> home_state" where
  "mount demo demo_weight now =
    \<lparr>focus = Price,
     weight = demo_weight,
     effectiveBias = snapWeight demo_weight,
     wallet = [],
     recStatus = Idle,
     recommendations = [],
     clusterInsight = None,
     modelMessage = None,
     lastRunAt = None,
     narrativeCopy = DEFAULT_NARRATIVE,
     inferenceController = None,
     walletRef = [],
     weightRef = snapWeight demo_weight,
     aborted = {},
     next_controller = 0,
     debounce = Some (now + debounce_delay demo, snapWeight demo_weight),
     requests = []\<rparr>"

section \<open>Events\<close>

datatype event =
    SliderInput real
  | FocusChange focus_mode
  | WalletChange js_string
  | RunSignal
  | TimerFire
  | Settled nat fetch_result

text \<open>
  One turn of the event loop at clock \<open>now\<close>: the handler or continuation, then the
  effects of the render it causes. A request can only settle once it was issued. The
  wallet input and the run button (component \<open>WalletSignalCard\<close>) are disabled with the
  demo flag set, the button also while the status is loading; a disabled control
  delivers no event.
\<close>

fun on_event :: "bool \<Rightarrow> nat \<Rightarrow> event \<Rightarrow> home_state \<Rightarrow> home_state" where
  "on_event demo now (SliderInput v) s = handleWeightChange v s"
| "on_event demo now (FocusChange m) s = handleFocusChange m s"
| "on_event demo now (WalletChange w) s = (if demo then s else handleWalletChange w s)"
| "on_event demo now RunSignal s =
    (if recStatus s = Loading \<or> demo then s else handleRunSignal demo now s)"
| "on_event demo now TimerFire s = debounce_fire demo now s"
| "on_event demo now (Settled c r) s = (if c < next_controller s then settle c r now s else s)"

definition step :: "bool \<Rightarrow> nat \<Rightarrow> event \<Rightarrow> home_state \<Rightarrow> home_state" where
  "step demo now e s = render demo now s (on_event demo now e s)"

text \<open>
  A timed run: before the event at time \<open>t\<close> is handled, a timer that is due by then
  fires at its due time; \<open>play_until\<close> lets the clock run on to a horizon after the last
  event.
\<close>

definition fire_due :: "bool \<Rightarrow> nat \<Rightarrow> home_state \<Rightarrow> home_state" where
  "fire_due demo t s =
    (case debounce s of
       None \<Rightarrow> s
     | Some (due, bias) \<Rightarrow> if due \<le> t then step demo due TimerFire s else s)"

fun play :: "bool \<Rightarrow> (nat \<times> event) list \<Rightarrow> home_state \<Rightarrow> home_state" where
  "play demo [] s = s"
| "play demo ((t, e) # evs) s = play demo evs (step demo t e (fire_due demo t s))"

definition play_until :: "bool \<Rightarrow> nat \<Rightarrow> (nat \<times> event) list \<Rightarrow> home_state \<Rightarrow> home_state" where
  "play_until demo horizon evs s = fire_due demo horizon (play demo evs s)"

section \<open>Invariants\<close>

text \<open>
  Controllers are created in increasing order; every aborted controller is older than
  the next one to be created, and the controller held by the ref is not aborted.
\<close>

definition controllers_ok :: "home_state \<Rightarrow> bool" where
  "controllers_ok s =
    ((\<forall>a \<in> aborted s. a < next_controller s) \<and>
     (case inferenceController s of
        None \<Rightarrow> True
      | Some c \<Rightarrow> c < next_controller s \<and> c \<notin> aborted s))"

text \<open>The two weight mixes, and the two values \<open>snapWeight\<close> can return.\<close>

definition weights_ok :: "request_payload \<Rightarrow> bool" where
  "weights_ok p =
    (price_weight p = 0.5 \<and> sentiment_weight p = 0.5 \<or>
     price_weight p = 0.6 \<and> sentiment_weight p = 0.4)"

definition snapped :: "real \<Rightarrow> bool" where
  "snapped b = (b = 50 \<or> b = 60)"

definition bias_ok :: "home_state \<Rightarrow> bool" where
  "bias_ok s =
    (snapped (effectiveBias s) \<and> snapped (weightRef s) \<and>
     (case debounce s of None \<Rightarrow> True | Some (due, b) \<Rightarrow> snapped b) \<and>
     (\<forall>(c, p) \<in> set (requests s). weights_ok p))"


text \<open>
  The failures of a request that are not cancellations: the fetch rejected, the status
  is outside 200..299, or the body is not JSON or is the JSON value \<open>null\<close>.
\<close>

definition genuine_failure :: "fetch_result \<Rightarrow> bool" where
  "genuine_failure r =
    (case r of
       FetchRejected \<Rightarrow> True
     | FetchResponse status js \<Rightarrow>
         \<not> response_ok status \<or> js = JsonRejected \<or> js = JsonNull)"

text \<open>The demo snapshot is on display and the status is idle.\<close>

definition shows_demo :: "home_state \<Rightarrow> bool" where
  "shows_demo s =
    (recommendations s = DEMO_RECOMMENDATIONS \<and> clusterInsight s = Some DEMO_CLUSTER \<and>
     narrativeCopy s = DEMO_NARRATIVE \<and> recStatus s = Idle)"

text \<open>The page has never issued a request and is idle.\<close>

definition demo_idle :: "home_state \<Rightarrow> bool" where
  "demo_idle s = (requests s = [] \<and> next_controller s = 0 \<and> recStatus s = Idle)"

section \<open>Auxiliary facts\<close>

lemma render_same: "render demo now s s = s"
  by (simp add: render_def debounce_effect_def ref_effects_def)

lemma render_controllers:
  "aborted (render demo now s s') = aborted s' \<and>
   next_controller (render demo now s s') = next_controller s' \<and>
   inferenceController (render demo now s s') = inferenceController s'"
  by (simp add: render_def debounce_effect_def ref_effects_def)

lemma controllers_ok_cong:
  "aborted s' = aborted s \<Longrightarrow> next_controller s' = next_controller s \<Longrightarrow>
   inferenceController s' = inferenceController s \<Longrightarrow> controllers_ok s' = controllers_ok s"
  by (simp add: controllers_ok_def split: option.splits)

lemma controllers_ok_runInference:
  "controllers_ok s \<Longrightarrow> controllers_ok (runInference demo trig bias w now s)"
  by (auto simp: controllers_ok_def runInference_def Let_def split: option.splits)

lemma settle_controllers:
  "aborted (settle c r now s) = aborted s \<and>
   next_controller (settle c r now s) = next_controller s \<and>
   inferenceController (settle c r now s) = inferenceController s"
  by (cases r) (auto simp: catch_block_def apply_body_def split: json_result.splits)

lemma controllers_ok_on_event:
  "controllers_ok s \<Longrightarrow> controllers_ok (on_event demo now e s)"
proof (cases e)
  case (Settled c r)
  assume "controllers_ok s"
  then show ?thesis
    using Settled settle_controllers [of c r now s]
      controllers_ok_cong [of "settle c r now s" s] by simp
next
  case TimerFire
  assume ok: "controllers_ok s"
  show ?thesis
  proof (cases "debounce s")
    case None
    then show ?thesis using TimerFire ok by (simp add: debounce_fire_def)
  next
    case (Some a)
    obtain due b where a: "a = (due, b)" by (cases a)
    have "controllers_ok (s\<lparr>debounce := None\<rparr>)"
      using ok by (simp add: controllers_ok_def split: option.splits)
    then show ?thesis
      using TimerFire Some a ok controllers_ok_runInference
      by (simp add: debounce_fire_def)
  qed
qed (simp_all add: handleRunSignal_def controllers_ok_runInference,
     simp_all add: controllers_ok_def handleWeightChange_def handleFocusChange_def
       handleWalletChange_def Let_def split: option.splits)

lemma controllers_ok_step: "controllers_ok s \<Longrightarrow> controllers_ok (step demo now e s)"
  using controllers_ok_on_event [of s demo now e]
    render_controllers [of demo now s "on_event demo now e s"]
    controllers_ok_cong [of "render demo now s (on_event demo now e s)" "on_event demo now e s"]
  by (simp add: step_def)

lemma controllers_ok_fire_due: "controllers_ok s \<Longrightarrow> controllers_ok (fire_due demo t s)"
  by (auto simp: fire_due_def controllers_ok_step split: option.splits)

lemma controllers_ok_play: "controllers_ok s \<Longrightarrow> controllers_ok (play demo evs s)"
  by (induction evs arbitrary: s) (auto simp: controllers_ok_step controllers_ok_fire_due)

lemma controllers_ok_mount: "controllers_ok (mount demo w now)"
  by (simp add: controllers_ok_def mount_def)

lemma snapped_snapWeight: "snapped (snapWeight v)"
  by (simp add: snapped_def snapWeight_def)

lemma weights_ok_build_payload:
  "snapped (case bias of Some b \<Rightarrow> b | None \<Rightarrow> weightRef s) \<Longrightarrow>
   weights_ok (build_payload bias w s)"
  by (auto simp: snapped_def weights_ok_def build_payload_def Let_def)

lemma bias_ok_runInference:
  "bias_ok s \<Longrightarrow> (case bias of Some b \<Rightarrow> snapped b | None \<Rightarrow> True) \<Longrightarrow>
   bias_ok (runInference demo trig bias w now s)"
proof -
  assume ok: "bias_ok s" and b: "case bias of Some b \<Rightarrow> snapped b | None \<Rightarrow> True"
  have "snapped (case bias of Some b \<Rightarrow> b | None \<Rightarrow> weightRef s)"
    using ok b by (cases bias) (simp_all add: bias_ok_def)
  then have "weights_ok (build_payload bias w s)" by (rule weights_ok_build_payload)
  then show ?thesis
    using ok by (auto simp: bias_ok_def runInference_def Let_def split: option.splits)
qed

lemma settle_bias:
  "effectiveBias (settle c r now s) = effectiveBias s \<and>
   weightRef (settle c r now s) = weightRef s \<and>
   debounce (settle c r now s) = debounce s \<and>
   requests (settle c r now s) = requests s"
  by (cases r) (auto simp: catch_block_def apply_body_def split: json_result.splits)

lemma bias_ok_settle: "bias_ok s \<Longrightarrow> bias_ok (settle c r now s)"
  using settle_bias [of c r now s] by (simp add: bias_ok_def split: option.splits)

lemma bias_ok_on_event: "bias_ok s \<Longrightarrow> bias_ok (on_event demo now e s)"
proof (cases e)
  case TimerFire
  assume ok: "bias_ok s"
  show ?thesis
  proof (cases "debounce s")
    case None
    then show ?thesis using TimerFire ok by (simp add: debounce_fire_def)
  next
    case (Some a)
    obtain due b where a: "a = (due, b)" by (cases a)
    have 1: "bias_ok (s\<lparr>debounce := None\<rparr>)"
      using ok by (simp add: bias_ok_def)
    have 2: "snapped b" using ok Some a by (simp add: bias_ok_def)
    show ?thesis
      using TimerFire Some a ok bias_ok_runInference [OF 1, of "Some b"] 2
      by (simp add: debounce_fire_def)
  qed
next
  case RunSignal
  assume "bias_ok s"
  then show ?thesis
    using RunSignal bias_ok_runInference [of s None] by (simp add: handleRunSignal_def)
qed (simp_all add: bias_ok_settle,
     simp_all add: bias_ok_def handleWeightChange_def handleFocusChange_def
       handleWalletChange_def Let_def snapped_snapWeight split: option.splits)

lemma bias_ok_render:
  "bias_ok s \<Longrightarrow> bias_ok s' \<Longrightarrow> bias_ok (render demo now s s')"
  by (simp add: bias_ok_def render_def debounce_effect_def ref_effects_def split: option.splits)

lemma bias_ok_step: "bias_ok s \<Longrightarrow> bias_ok (step demo now e s)"
  by (simp add: step_def bias_ok_render bias_ok_on_event)

lemma bias_ok_fire_due: "bias_ok s \<Longrightarrow> bias_ok (fire_due demo t s)"
  by (auto simp: fire_due_def bias_ok_step split: option.splits)

lemma bias_ok_play: "bias_ok s \<Longrightarrow> bias_ok (play demo evs s)"
  by (induction evs arbitrary: s) (auto simp: bias_ok_step bias_ok_fire_due)

lemma bias_ok_mount: "bias_ok (mount demo w now)"
  by (simp add: bias_ok_def mount_def snapped_snapWeight)







lemmas run_defs = play_until_def fire_due_def step_def render_def debounce_effect_def
  ref_effects_def handleWeightChange_def handleFocusChange_def handleWalletChange_def
  handleRunSignal_def mount_def debounce_delay_def snapWeight_def debounce_fire_def
  runInference_def build_payload_def

lemma settle_aborted: "c \<in> aborted s \<Longrightarrow> settle c r now s = s"
  by (cases r) (auto simp: catch_block_def split: json_result.splits)

lemma render_handleRunSignal:
  "render demo now s (handleRunSignal demo now s) = runInference demo Manual None True now s"
  by (simp add: handleRunSignal_def render_def debounce_effect_def ref_effects_def
      runInference_def Let_def)

lemma step_Settled:
  "c < next_controller s \<Longrightarrow> step demo now (Settled c r) s = settle c r now s"
  using settle_bias [of c r now s]
  by (cases r)
     (auto simp: step_def render_def debounce_effect_def ref_effects_def catch_block_def
        apply_body_def split: json_result.splits)

lemma runInference_demo:
  "shows_demo (runInference True trig bias w now s) \<and>
   requests (runInference True trig bias w now s) = requests s \<and>
   next_controller (runInference True trig bias w now s) = next_controller s"
  by (simp add: shows_demo_def runInference_def Let_def)

lemma demo_timer_fires:
  assumes "debounce s = Some (due, b)" "due \<le> t"
  shows "shows_demo (fire_due True t s) \<and> requests (fire_due True t s) = requests s"
proof -
  have "fire_due True t s = runInference True Manual (Some b) False due (s\<lparr>debounce := None\<rparr>)"
    using assms
    by (simp add: fire_due_def step_def debounce_fire_def render_def debounce_effect_def
        ref_effects_def runInference_def Let_def)
  then show ?thesis
    using runInference_demo [of Manual "Some b" False due "s\<lparr>debounce := None\<rparr>"] by simp
qed

lemma demo_idle_on_event: "demo_idle s \<Longrightarrow> demo_idle (on_event True now e s)"
  by (cases e)
     (auto simp: demo_idle_def handleWeightChange_def handleFocusChange_def
        handleWalletChange_def handleRunSignal_def debounce_fire_def runInference_def Let_def
        split: option.splits)

lemma demo_idle_step: "demo_idle s \<Longrightarrow> demo_idle (step True now e s)"
  using demo_idle_on_event [of s now e]
  by (simp add: step_def demo_idle_def render_def debounce_effect_def ref_effects_def)

lemma demo_idle_fire_due: "demo_idle s \<Longrightarrow> demo_idle (fire_due True t s)"
  by (auto simp: fire_due_def demo_idle_step split: option.splits)

lemma demo_idle_play: "demo_idle s \<Longrightarrow> demo_idle (play True evs s)"
  by (induction evs arbitrary: s) (auto simp: demo_idle_step demo_idle_fire_due)

lemma demo_idle_mount: "demo_idle (mount True w m)"
  by (simp add: demo_idle_def mount_def)

lemma slider_arms_timer:
  "weight s \<noteq> v \<or> effectiveBias s \<noteq> snapWeight v \<Longrightarrow>
   debounce (step demo now (SliderInput v) s) = Some (now + debounce_delay demo, snapWeight v) \<and>
   requests (step demo now (SliderInput v) s) = requests s"
  by (auto simp: step_def render_def debounce_effect_def ref_effects_def
      handleWeightChange_def Let_def)

lemma focus_arms_timer:
  "weight s \<noteq> (if m = Price then 75 else 25) \<or>
   effectiveBias s \<noteq> snapWeight (if m = Price then 75 else 25) \<Longrightarrow>
   debounce (step demo now (FocusChange m) s) =
     Some (now + debounce_delay demo, snapWeight (if m = Price then 75 else 25)) \<and>
   requests (step demo now (FocusChange m) s) = requests s"
  by (auto simp: step_def render_def debounce_effect_def ref_effects_def
      handleFocusChange_def Let_def)

section \<open>Claims\<close>

text \<open>
  C4. \<open>snapWeight\<close> is a step function with two values: every raw weight from 0 to 49
  gives 50 and every raw weight from 50 to 100 gives 60; so 0 and 49 give 50, and 50
  and 100 give 60.
\<close>

theorem snapWeight_two_valued:
  "(0 \<le> w \<and> w \<le> 49 \<longrightarrow> snapWeight w = 50) \<and>
   (50 \<le> w \<and> w \<le> 100 \<longrightarrow> snapWeight w = 60) \<and>
   snapWeight 0 = 50 \<and> snapWeight 49 = 50 \<and> snapWeight 50 = 60 \<and> snapWeight 100 = 60"
  by (simp add: snapWeight_def)

theorem snapWeight_two_valued_witness:
  "(0::real) \<le> 30 \<and> (30::real) \<le> 49 \<and> snapWeight 30 = 50 \<and>
   (50::real) \<le> 75 \<and> (75::real) \<le> 100 \<and> snapWeight 75 = 60"
  using snapWeight_two_valued [of 30] snapWeight_two_valued [of 75] by simp



text \<open>
  C7. The completion of a request whose controller was aborted changes nothing, whether
  the fetch resolved or rejected: status, recommendations, cluster, message and
  narrative (the whole state) stay as they were, so no error status results.
\<close>

theorem cancelled_completion_discarded:
  "controller \<in> aborted s \<Longrightarrow>
     settle controller result now s = s \<and> step demo now (Settled controller result) s = s"
  by (cases result) (auto simp: catch_block_def step_def render_same split: json_result.splits)

theorem cancelled_completion_discarded_witness:
  "settle 0 FetchRejected 900
     (play_until False 700 [(100, RunSignal)] (mount False 65 0)) =
   play_until False 700 [(100, RunSignal)] (mount False 65 0) \<and>
   recStatus (step False 900 (Settled 0 (FetchResponse 200 (JsonValue
       \<lparr>body_recommendations = None, body_cluster = None, body_message = None,
        body_generated_at = None, body_narrative = None\<rparr>)))
     (play_until False 700 [(100, RunSignal)] (mount False 65 0))) = Loading"
proof -
  have a: "0 \<in> aborted (play_until False 700 [(100, RunSignal)] (mount False 65 0))"
    by (simp add: run_defs)
  have l: "recStatus (play_until False 700 [(100, RunSignal)] (mount False 65 0)) = Loading"
    by (simp add: run_defs)
  note d = cancelled_completion_discarded [OF a]
  show ?thesis
    by (intro conjI, rule d [THEN conjunct1], simp only: d [THEN conjunct2] l)
qed



text \<open>
  C10. Whatever the events and their timing, from the first render on: every request
  issued carries price weight 0.5 with sentiment weight 0.5, or price weight 0.6 with
  sentiment weight 0.4, and the effective bias of the page is 50 or 60.
\<close>

theorem requests_carry_snapped_weights:
  "(\<forall>(c, p) \<in> set (requests (play_until demo horizon evs (mount demo demo_weight t0))).
      price_weight p = 0.5 \<and> sentiment_weight p = 0.5 \<or>
      price_weight p = 0.6 \<and> sentiment_weight p = 0.4) \<and>
   (effectiveBias (play_until demo horizon evs (mount demo demo_weight t0)) = 50 \<or>
    effectiveBias (play_until demo horizon evs (mount demo demo_weight t0)) = 60)"
proof -
  have "bias_ok (play_until demo horizon evs (mount demo demo_weight t0))"
    unfolding play_until_def by (intro bias_ok_fire_due bias_ok_play bias_ok_mount)
  then show ?thesis by (simp add: bias_ok_def weights_ok_def snapped_def)
qed

theorem requests_carry_snapped_weights_witness:
  "requests (play_until False 2000
      [(0, SliderInput 30), (100, RunSignal), (200, FocusChange Price)]
      (mount False 65 0)) =
   [(0, \<lparr>price_weight = 0.5, sentiment_weight = 0.5, req_wallet = None\<rparr>),
    (1, \<lparr>price_weight = 0.6, sentiment_weight = 0.4, req_wallet = None\<rparr>)] \<and>
   effectiveBias (play_until False 2000
      [(0, SliderInput 30), (100, RunSignal), (200, FocusChange Price)]
      (mount False 65 0)) = 60"
  using requests_carry_snapped_weights [of False 2000
      "[(0, SliderInput 30), (100, RunSignal), (200, FocusChange Price)]" 65 0]
  by (simp add: run_defs trim_def Let_def)

text \<open>
  C1. Two requests A and B are issued in this order (with the demo flag off). When B's
  response is applied and A's request settles afterwards, with any outcome, the state
  is the one B's body produced: A's completion is discarded without a state change.
  The same holds when A settles before B does. The log shows the two requests in the
  order they were issued.
\<close>

theorem stale_response_discarded:
  assumes "controllers_ok s" "response_ok status"
  shows "settle (next_controller s) resultA tA'
           (settle (Suc (next_controller s)) (FetchResponse status (JsonValue bodyB)) tB'
              (runInference False trigB biasB walletB tB
                 (runInference False trigA biasA walletA tA s))) =
         apply_body bodyB tB'
           (runInference False trigB biasB walletB tB
              (runInference False trigA biasA walletA tA s)) \<and>
         settle (next_controller s) resultA tA'
           (runInference False trigB biasB walletB tB
              (runInference False trigA biasA walletA tA s)) =
         runInference False trigB biasB walletB tB
           (runInference False trigA biasA walletA tA s) \<and>
         map fst (requests (runInference False trigB biasB walletB tB
                    (runInference False trigA biasA walletA tA s))) =
         map fst (requests s) @ [next_controller s, Suc (next_controller s)]"
proof -
  let ?sA = "runInference False trigA biasA walletA tA s"
  let ?sB = "runInference False trigB biasB walletB tB ?sA"
  have okB: "controllers_ok ?sB"
    using assms(1) by (intro controllers_ok_runInference)
  have cur: "inferenceController ?sB = Some (Suc (next_controller s))"
    by (simp add: runInference_def Let_def)
  have nB: "Suc (next_controller s) \<notin> aborted ?sB"
    using okB cur by (simp add: controllers_ok_def)
  have aA: "next_controller s \<in> aborted ?sB"
    by (simp add: runInference_def Let_def)
  have sB: "settle (Suc (next_controller s)) (FetchResponse status (JsonValue bodyB)) tB' ?sB =
            apply_body bodyB tB' ?sB"
    using nB assms(2) by simp
  have "next_controller s \<in> aborted (apply_body bodyB tB' ?sB)"
    using aA by (simp add: apply_body_def)
  then have 1: "settle (next_controller s) resultA tA' (apply_body bodyB tB' ?sB) =
             apply_body bodyB tB' ?sB"
    by (rule settle_aborted)
  have 2: "settle (next_controller s) resultA tA' ?sB = ?sB"
    using aA by (rule settle_aborted)
  have 3: "map fst (requests ?sB) = map fst (requests s) @ [next_controller s, Suc (next_controller s)]"
    by (simp add: runInference_def Let_def)
  show ?thesis using 1 2 3 by (simp only: sB simp_thms)
qed

theorem stale_response_discarded_witness:
  "recommendations
     (settle 0 (FetchResponse 200 (JsonValue
         \<lparr>body_recommendations = Some DEMO_RECOMMENDATIONS, body_cluster = None,
          body_message = None, body_generated_at = None, body_narrative = None\<rparr>)) 40
       (settle 1 (FetchResponse 200 (JsonValue
           \<lparr>body_recommendations = Some [], body_cluster = Some DEMO_CLUSTER,
            body_message = None, body_generated_at = Some ''2024-01-01T00:00:00Z'',
            body_narrative = Some ''B''\<rparr>)) 30
         (runInference False Manual None True 20
            (runInference False Auto (Some 60) False 10 (mount False 65 0))))) = [] \<and>
   narrativeCopy
     (settle 0 (FetchResponse 200 (JsonValue
         \<lparr>body_recommendations = Some DEMO_RECOMMENDATIONS, body_cluster = None,
          body_message = None, body_generated_at = None, body_narrative = None\<rparr>)) 40
       (settle 1 (FetchResponse 200 (JsonValue
           \<lparr>body_recommendations = Some [], body_cluster = Some DEMO_CLUSTER,
            body_message = None, body_generated_at = Some ''2024-01-01T00:00:00Z'',
            body_narrative = Some ''B''\<rparr>)) 30
         (runInference False Manual None True 20
            (runInference False Auto (Some 60) False 10 (mount False 65 0))))) = ''B''"
proof -
  have ok: "controllers_ok (mount False 65 0)" by (rule controllers_ok_mount)
  have r: "response_ok 200" by (simp add: response_ok_def)
  have n: "next_controller (mount False 65 0) = 0" by (simp add: mount_def)
  show ?thesis
    using stale_response_discarded [OF ok r, of
        "FetchResponse 200 (JsonValue
         \<lparr>body_recommendations = Some DEMO_RECOMMENDATIONS, body_cluster = None,
          body_message = None, body_generated_at = None, body_narrative = None\<rparr>)" 40
        "\<lparr>body_recommendations = Some [], body_cluster = Some DEMO_CLUSTER,
            body_message = None, body_generated_at = Some ''2024-01-01T00:00:00Z'',
            body_narrative = Some ''B''\<rparr>" 30 Manual None True 20 Auto "Some 60" False 10]
    by (simp add: n apply_body_def)
qed

text \<open>
  C2 does not hold as specified: a manual run does not cancel the pending debounce
  timer. After a slider change at 0 ms and a manual run at 100 ms the timer set by the
  slider change is still pending, and when it fires at 600 ms a second request is issued.
\<close>

theorem manual_run_keeps_timer_counterexample:
  "debounce (play False [(0, SliderInput 30), (100, RunSignal)] (mount False 65 0)) =
     Some (600, 50) \<and>
   map fst (requests (play_until False 600 [(0, SliderInput 30), (100, RunSignal)]
                        (mount False 65 0))) = [0, 1]"
  by (simp add: run_defs Let_def)

text \<open>
  C2, amended. With the demo flag off, the handler of a manual run aborts the
  controller of the previous request, and the completion of that request, whatever its
  outcome, then leaves recommendations, cluster, narrative and status (the whole state)
  unchanged. The pending debounce timer is left as it is.
\<close>

theorem manual_run_invalidates_inflight_call:
  assumes "inferenceController s = Some c"
  shows "c \<in> aborted (render False now s (handleRunSignal False now s)) \<and>
         settle c result now' (render False now s (handleRunSignal False now s)) =
           render False now s (handleRunSignal False now s) \<and>
         debounce (render False now s (handleRunSignal False now s)) = debounce s"
proof -
  have a: "c \<in> aborted (render False now s (handleRunSignal False now s))"
    using assms by (simp add: render_handleRunSignal runInference_def Let_def)
  have d: "debounce (render False now s (handleRunSignal False now s)) = debounce s"
    by (simp add: render_handleRunSignal runInference_def Let_def)
  show ?thesis using a d settle_aborted [OF a] by simp
qed

theorem manual_run_invalidates_inflight_call_witness:
  "0 \<in> aborted (render False 900 (play_until False 700 [] (mount False 65 0))
       (handleRunSignal False 900 (play_until False 700 [] (mount False 65 0)))) \<and>
   recommendations (settle 0 (FetchResponse 200 (JsonValue
       \<lparr>body_recommendations = Some DEMO_RECOMMENDATIONS, body_cluster = None,
        body_message = None, body_generated_at = None, body_narrative = None\<rparr>)) 950
     (render False 900 (play_until False 700 [] (mount False 65 0))
       (handleRunSignal False 900 (play_until False 700 [] (mount False 65 0))))) = []"
proof -
  have c: "inferenceController (play_until False 700 [] (mount False 65 0)) = Some 0"
    by (simp add: run_defs Let_def)
  have r: "recommendations (render False 900 (play_until False 700 [] (mount False 65 0))
       (handleRunSignal False 900 (play_until False 700 [] (mount False 65 0)))) = []"
    by (simp add: run_defs Let_def)
  note m = manual_run_invalidates_inflight_call [OF c, of 900]
  show ?thesis
    by (intro conjI, rule m [THEN conjunct1], simp only: m [THEN conjunct2, THEN conjunct1] r)
qed

text \<open>
  C3 does not hold as specified: after a genuine failure the status does not return to
  idle. A response with status 500 for the current request leaves the status at error,
  and it is still not idle when the clock has run on.
\<close>

theorem failure_status_stays_error_counterexample:
  "recStatus (step False 700 (Settled 0 (FetchResponse 500 JsonRejected))
                (play_until False 600 [] (mount False 65 0))) = Error \<and>
   recStatus (play_until False 5000 [(700, Settled 0 (FetchResponse 500 JsonRejected))]
                (mount False 65 0)) \<noteq> Idle"
  by (simp add: run_defs Let_def catch_block_def response_ok_def)

text \<open>
  C3, amended. When the current request fails genuinely (fetch rejected, status outside
  200..299, body not decodable), the fallback recommendations and cluster, the default
  narrative and the fixed diagnostic message are stored and the status becomes error;
  the failure handling makes no transition to idle.
\<close>

theorem genuine_failure_stores_fallback:
  assumes "controllers_ok s" "inferenceController s = Some c" "genuine_failure r"
  shows "step demo now (Settled c r) s =
           s\<lparr>recStatus := Error,
             recommendations := DEMO_RECOMMENDATIONS,
             clusterInsight := Some DEMO_CLUSTER,
             modelMessage := Some FALLBACK_MESSAGE,
             lastRunAt := Some (ClientTime now),
             narrativeCopy := DEFAULT_NARRATIVE\<rparr> \<and>
         recStatus (step demo now (Settled c r) s) = Error"
proof -
  have c: "c < next_controller s" "c \<notin> aborted s"
    using assms(1,2) by (simp_all add: controllers_ok_def)
  have "settle c r now s = catch_block c now s"
    using assms(3) c(2) by (cases r) (auto simp: genuine_failure_def split: json_result.splits)
  then show ?thesis
    using c by (simp add: step_Settled catch_block_def)
qed

theorem genuine_failure_stores_fallback_witness:
  "recStatus (step False 700 (Settled 0 FetchRejected)
                (play_until False 600 [] (mount False 65 0))) = Error \<and>
   recommendations (step False 700 (Settled 0 FetchRejected)
                (play_until False 600 [] (mount False 65 0))) = DEMO_RECOMMENDATIONS \<and>
   modelMessage (step False 700 (Settled 0 FetchRejected)
                (play_until False 600 [] (mount False 65 0))) = Some FALLBACK_MESSAGE"
proof -
  have ok: "controllers_ok (play_until False 600 [] (mount False 65 0))"
    unfolding play_until_def
    by (intro controllers_ok_fire_due controllers_ok_play controllers_ok_mount)
  have c: "inferenceController (play_until False 600 [] (mount False 65 0)) = Some 0"
    by (simp add: run_defs Let_def)
  have g: "genuine_failure FetchRejected" by (simp add: genuine_failure_def)
  show ?thesis
    using genuine_failure_stores_fallback [OF ok c g, of False 700] by simp
qed

text \<open>
  C5. With the demo flag set, the handler of a manual run stores the demo
  recommendations, the demo cluster and the demo narrative and leaves the status idle,
  without issuing a request, whatever the wallet and the bias are. A change of the bias
  by the slider or by a focus toggle does the same as soon as its 0 ms timer fires. Over
  a whole run from the first render no request is ever issued and the status is idle.
\<close>

theorem demo_mode_issues_no_request:
  "shows_demo (render True now s (handleRunSignal True now s)) \<and>
   requests (render True now s (handleRunSignal True now s)) = requests s \<and>
   (weight s \<noteq> v \<or> effectiveBias s \<noteq> snapWeight v \<longrightarrow>
      shows_demo (fire_due True now (step True now (SliderInput v) s)) \<and>
      requests (fire_due True now (step True now (SliderInput v) s)) = requests s) \<and>
   (weight s \<noteq> (if m = Price then 75 else 25) \<or>
    effectiveBias s \<noteq> snapWeight (if m = Price then 75 else 25) \<longrightarrow>
      shows_demo (fire_due True now (step True now (FocusChange m) s)) \<and>
      requests (fire_due True now (step True now (FocusChange m) s)) = requests s) \<and>
   requests (play_until True horizon evs (mount True demo_weight t0)) = [] \<and>
   recStatus (play_until True horizon evs (mount True demo_weight t0)) = Idle"
proof -
  have 1: "shows_demo (render True now s (handleRunSignal True now s)) \<and>
           requests (render True now s (handleRunSignal True now s)) = requests s"
    using runInference_demo [of Manual None True now s] by (simp add: render_handleRunSignal)
  have 2: "shows_demo (fire_due True now (step True now (SliderInput v) s)) \<and>
      requests (fire_due True now (step True now (SliderInput v) s)) = requests s"
    if "weight s \<noteq> v \<or> effectiveBias s \<noteq> snapWeight v"
    using slider_arms_timer [OF that, of True now]
      demo_timer_fires [of "step True now (SliderInput v) s" now "snapWeight v" now]
    by (simp add: debounce_delay_def)
  have 3: "shows_demo (fire_due True now (step True now (FocusChange m) s)) \<and>
      requests (fire_due True now (step True now (FocusChange m) s)) = requests s"
    if "weight s \<noteq> (if m = Price then 75 else 25) \<or>
        effectiveBias s \<noteq> snapWeight (if m = Price then 75 else 25)"
    using focus_arms_timer [OF that, of True now]
      demo_timer_fires [of "step True now (FocusChange m) s" now
        "snapWeight (if m = Price then 75 else 25)" now]
    by (simp add: debounce_delay_def)
  have "demo_idle (play_until True horizon evs (mount True demo_weight t0))"
    unfolding play_until_def by (intro demo_idle_fire_due demo_idle_play demo_idle_mount)
  then have 4: "requests (play_until True horizon evs (mount True demo_weight t0)) = [] \<and>
     recStatus (play_until True horizon evs (mount True demo_weight t0)) = Idle"
    by (simp add: demo_idle_def)
  show ?thesis using 1 2 3 4 by blast
qed

theorem demo_mode_issues_no_request_witness:
  "recommendations (fire_due True 40 (step True 40 (SliderInput 20) (mount True 65 0))) =
     DEMO_RECOMMENDATIONS \<and>
   clusterInsight (fire_due True 40 (step True 40 (SliderInput 20) (mount True 65 0))) =
     Some DEMO_CLUSTER \<and>
   narrativeCopy (fire_due True 40 (step True 40 (FocusChange Sentiment) (mount True 65 0))) =
     DEMO_NARRATIVE \<and>
   requests (fire_due True 40 (step True 40 (SliderInput 20) (mount True 65 0))) = []"
proof -
  have w: "weight (mount True 65 0) \<noteq> 20 \<or> effectiveBias (mount True 65 0) \<noteq> snapWeight 20"
    by (simp add: mount_def)
  have f: "weight (mount True 65 0) \<noteq> (if Sentiment = Price then 75 else 25) \<or>
     effectiveBias (mount True 65 0) \<noteq> snapWeight (if Sentiment = Price then 75 else 25)"
    by (simp add: mount_def)
  have r: "requests (mount True 65 0) = []" by (simp add: mount_def)
  show ?thesis
    using demo_mode_issues_no_request [of 40 "mount True 65 0" 20 Sentiment 0 "[]" 65 0] w f r
    by (simp add: shows_demo_def)
qed

text \<open>
  C9. When the current request resolves with an ok status and a decoded body, each field
  is defaulted on its own: missing recommendations give the empty list, a missing
  cluster stays missing, a missing narrative gives the default narrative, a missing
  \<open>generated_at\<close> gives the clock at that moment; fields that are present are taken as
  they are. The status ends idle whichever fields are missing.
\<close>

theorem projection_defaults:
  assumes "controllers_ok s" "inferenceController s = Some c" "response_ok status"
  shows "(body_recommendations body = None \<longrightarrow>
            recommendations (step demo now (Settled c (FetchResponse status (JsonValue body))) s) = []) \<and>
         (body_recommendations body = Some rs \<longrightarrow>
            recommendations (step demo now (Settled c (FetchResponse status (JsonValue body))) s) = rs) \<and>
         clusterInsight (step demo now (Settled c (FetchResponse status (JsonValue body))) s) =
            body_cluster body \<and>
         (body_narrative body = None \<longrightarrow>
            narrativeCopy (step demo now (Settled c (FetchResponse status (JsonValue body))) s) =
              DEFAULT_NARRATIVE) \<and>
         (body_narrative body = Some n \<longrightarrow>
            narrativeCopy (step demo now (Settled c (FetchResponse status (JsonValue body))) s) = n) \<and>
         (body_generated_at body = None \<longrightarrow>
            lastRunAt (step demo now (Settled c (FetchResponse status (JsonValue body))) s) =
              Some (ClientTime now)) \<and>
         (body_generated_at body = Some g \<longrightarrow>
            lastRunAt (step demo now (Settled c (FetchResponse status (JsonValue body))) s) =
              Some (ServerTime g)) \<and>
         modelMessage (step demo now (Settled c (FetchResponse status (JsonValue body))) s) =
            body_message body \<and>
         recStatus (step demo now (Settled c (FetchResponse status (JsonValue body))) s) = Idle"
proof -
  have c: "c < next_controller s" "c \<notin> aborted s"
    using assms(1,2) by (simp_all add: controllers_ok_def)
  have "step demo now (Settled c (FetchResponse status (JsonValue body))) s =
        apply_body body now s"
    using c assms(3) by (simp add: step_Settled)
  then show ?thesis by (simp add: apply_body_def)
qed

theorem projection_defaults_witness:
  "recommendations (step False 700 (Settled 0 (FetchResponse 200 (JsonValue
       \<lparr>body_recommendations = None, body_cluster = None, body_message = None,
        body_generated_at = None, body_narrative = None\<rparr>)))
     (play_until False 600 [] (mount False 65 0))) = [] \<and>
   narrativeCopy (step False 700 (Settled 0 (FetchResponse 200 (JsonValue
       \<lparr>body_recommendations = None, body_cluster = None, body_message = None,
        body_generated_at = None, body_narrative = None\<rparr>)))
     (play_until False 600 [] (mount False 65 0))) = DEFAULT_NARRATIVE \<and>
   lastRunAt (step False 700 (Settled 0 (FetchResponse 200 (JsonValue
       \<lparr>body_recommendations = None, body_cluster = None, body_message = None,
        body_generated_at = None, body_narrative = None\<rparr>)))
     (play_until False 600 [] (mount False 65 0))) = Some (ClientTime 700) \<and>
   recStatus (step False 700 (Settled 0 (FetchResponse 200 (JsonValue
       \<lparr>body_recommendations = None, body_cluster = None, body_message = None,
        body_generated_at = None, body_narrative = None\<rparr>)))
     (play_until False 600 [] (mount False 65 0))) = Idle"
proof -
  have ok: "controllers_ok (play_until False 600 [] (mount False 65 0))"
    unfolding play_until_def
    by (intro controllers_ok_fire_due controllers_ok_play controllers_ok_mount)
  have c: "inferenceController (play_until False 600 [] (mount False 65 0)) = Some 0"
    by (simp add: run_defs Let_def)
  have r: "response_ok 200" by (simp add: response_ok_def)
  show ?thesis
    using projection_defaults [OF ok c r, of
        "\<lparr>body_recommendations = None, body_cluster = None, body_message = None,
        body_generated_at = None, body_narrative = None\<rparr>" False 700]
    by simp
qed

end
